theory Spec2Isabelle
  imports Complex_Main "HOL-Library.AList"
begin

section \<open>Conventions of the embedding\<close>

text \<open>
  The Python sources compute with \<open>float\<close>; the embedding computes with \<^typ>\<open>real\<close>, so every
  equation below is an equation of exact arithmetic (the reading the specification gives with
  "within floating-point tolerance").  Python \<open>int\<close> counters are \<^typ>\<open>nat\<close> or \<^typ>\<open>int\<close>.
  A \<open>datetime\<close> is a number of seconds.  A \<open>dict\<close> that is iterated is an association list
  in insertion order (\<^const>\<open>AList.update\<close> overwrites in place or appends, as \<open>d[k] = v\<close> does;
  \<^const>\<open>AList.delete\<close> is \<open>del d[k]\<close>); a \<open>dict\<close> that is only looked up is a map.
  A Python exception is a value of type \<open>py_error\<close>, returned on the left of a sum.
\<close>

type_synonym datetime = real

datatype py_error = ZeroDivisionError

text \<open>Division of two Python floats: raises on a zero divisor.\<close>

definition py_div :: "real \<Rightarrow> real \<Rightarrow> py_error + real" where
  "py_div a b = (if b = 0 then Inl ZeroDivisionError else Inr (a / b))"

text \<open>\<open>numpy.mean\<close> of a non-empty list.\<close>

definition np_mean :: "real list \<Rightarrow> real" where
  "np_mean xs = sum_list xs / real (length xs)"

section \<open>portfolio\_tracker.py\<close>

subsection \<open>Trade and Position\<close>

text \<open>
  \<open>Trade\<close> shares three field names with \<open>Position\<close>; it is declared first, so that the
  unqualified names are those of \<open>Position\<close> and the fields of a trade are written
  \<open>Trade.token_symbol\<close>, \<open>Trade.token_address\<close>, \<open>Trade.quantity\<close>.
\<close>

record Trade =
  timestamp :: datetime
  action :: string
  token_symbol :: string
  token_address :: string
  price :: real
  quantity :: real
  value_usd :: real
  reason :: string

record Position =
  token_symbol :: string
  token_address :: string
  entry_price :: real
  current_price :: real
  quantity :: real
  entry_time :: datetime
  position_value_usd :: real
  pnl_usd :: real
  pnl_percent :: real

text \<open>The dataclass constructor: the three derived fields default to 0.\<close>

definition Position_init ::
  "string \<Rightarrow> string \<Rightarrow> real \<Rightarrow> real \<Rightarrow> real \<Rightarrow> datetime \<Rightarrow> Position" where
  "Position_init symb addr entry cur qty t =
     \<lparr>token_symbol = symb, token_address = addr, entry_price = entry, current_price = cur,
      quantity = qty, entry_time = t, position_value_usd = 0, pnl_usd = 0, pnl_percent = 0\<rparr>"

definition update_price :: "Position \<Rightarrow> real \<Rightarrow> Position" where
  "update_price pos new_price =
     (let worth = quantity pos * new_price;
          cost_basis = quantity pos * entry_price pos;
          pnl = worth - cost_basis
      in pos\<lparr>current_price := new_price,
              position_value_usd := worth,
              pnl_usd := pnl,
              pnl_percent := (if cost_basis > 0 then (pnl / cost_basis) * 100 else 0)\<rparr>)"

subsection \<open>Portfolio\<close>

record Portfolio =
  starting_balance :: real
  current_balance :: real
  positions :: "(string \<times> Position) list"
  trade_history :: "Trade list"
  total_realized_pnl :: real
  total_unrealized_pnl :: real
  win_count :: nat
  loss_count :: nat

text \<open>\<open>Portfolio(starting_balance=b, current_balance=b)\<close>, as \<open>PortfolioManager.__init__\<close> builds it.\<close>

definition Portfolio_init :: "real \<Rightarrow> Portfolio" where
  "Portfolio_init b =
     \<lparr>starting_balance = b, current_balance = b, positions = [], trade_history = [],
      total_realized_pnl = 0, total_unrealized_pnl = 0, win_count = 0, loss_count = 0\<rparr>"

definition buy_trade :: "Position \<Rightarrow> Trade" where
  "buy_trade position =
     \<lparr>timestamp = entry_time position, action = ''buy'',
      Trade.token_symbol = token_symbol position,
      Trade.token_address = token_address position,
      price = entry_price position, Trade.quantity = quantity position,
      value_usd = quantity position * entry_price position, reason = ''Initial position''\<rparr>"

definition add_position :: "Portfolio \<Rightarrow> Position \<Rightarrow> Portfolio" where
  "add_position p position =
     p\<lparr>positions := AList.update (token_address position) position (positions p),
       current_balance := current_balance p - quantity position * entry_price position,
       trade_history := trade_history p @ [buy_trade position]\<rparr>"

definition sell_trade :: "Position \<Rightarrow> real \<Rightarrow> string \<Rightarrow> datetime \<Rightarrow> Trade" where
  "sell_trade position sell_price why now =
     \<lparr>timestamp = now, action = ''sell'',
      Trade.token_symbol = token_symbol position,
      Trade.token_address = token_address position,
      price = sell_price, Trade.quantity = quantity position,
      value_usd = position_value_usd position, reason = why\<rparr>"

text \<open>
  \<open>close_position\<close> returns its boolean together with the portfolio it leaves; \<open>now\<close> is the
  value of \<open>datetime.utcnow()\<close> read for the trade record.
\<close>

definition close_position ::
  "Portfolio \<Rightarrow> string \<Rightarrow> real \<Rightarrow> string \<Rightarrow> datetime \<Rightarrow> bool \<times> Portfolio" where
  "close_position p addr sell_price why now =
     (case map_of (positions p) addr of
        None \<Rightarrow> (False, p)
      | Some held \<Rightarrow>
          (let position = update_price held sell_price;
               p1 = p\<lparr>current_balance := current_balance p + position_value_usd position,
                       total_realized_pnl := total_realized_pnl p + pnl_usd position\<rparr>;
               p2 = (if pnl_usd position > 0
                     then p1\<lparr>win_count := win_count p1 + 1\<rparr>
                     else p1\<lparr>loss_count := loss_count p1 + 1\<rparr>);
               p3 = p2\<lparr>trade_history :=
                          trade_history p2 @ [sell_trade position sell_price why now]\<rparr>
           in (True, p3\<lparr>positions := AList.delete addr (positions p3)\<rparr>)))"

text \<open>
  The loop of \<open>update_all_prices\<close> over \<open>self.positions.items()\<close>: a position whose address is a
  key of \<open>price_updates\<close> is updated and its pnl added to the running total; the others are
  passed over.
\<close>

fun update_positions ::
  "(string \<rightharpoonup> real) \<Rightarrow> (string \<times> Position) list \<Rightarrow> real
     \<Rightarrow> (string \<times> Position) list \<times> real" where
  "update_positions price_updates [] unrealized = ([], unrealized)"
| "update_positions price_updates ((address, position) # rest) unrealized =
     (case price_updates address of
        Some new_price \<Rightarrow>
          (let position' = update_price position new_price;
               (rest', unrealized') =
                  update_positions price_updates rest (unrealized + pnl_usd position')
           in ((address, position') # rest', unrealized'))
      | None \<Rightarrow>
          (let (rest', unrealized') = update_positions price_updates rest unrealized
           in ((address, position) # rest', unrealized')))"

definition update_all_prices :: "Portfolio \<Rightarrow> (string \<rightharpoonup> real) \<Rightarrow> Portfolio" where
  "update_all_prices p price_updates =
     (let (ps, unrealized) = update_positions price_updates (positions p) 0
      in p\<lparr>total_unrealized_pnl := unrealized, positions := ps\<rparr>)"

definition get_total_value :: "Portfolio \<Rightarrow> real" where
  "get_total_value p =
     current_balance p + sum_list (map (\<lambda>(a, pos). position_value_usd pos) (positions p))"

definition get_total_pnl :: "Portfolio \<Rightarrow> real" where
  "get_total_pnl p = total_realized_pnl p + total_unrealized_pnl p"

record PortfolioManager =
  portfolio :: Portfolio
  max_positions :: nat
  position_size_percent :: real

definition PortfolioManager_init :: "real \<Rightarrow> PortfolioManager" where
  "PortfolioManager_init b =
     \<lparr>portfolio = Portfolio_init b, max_positions = 10, position_size_percent = 10\<rparr>"

subsection \<open>Sequences of portfolio operations\<close>

text \<open>
  One call of a mutating method of \<open>Portfolio\<close>, with its arguments; \<open>run\<close> performs a
  sequence of such calls in order.
\<close>

datatype operation =
    Add_position Position
  | Update_all_prices "string \<rightharpoonup> real"
  | Close_position string real string datetime

fun apply_operation :: "Portfolio \<Rightarrow> operation \<Rightarrow> Portfolio" where
  "apply_operation p (Add_position position) = add_position p position"
| "apply_operation p (Update_all_prices price_updates) = update_all_prices p price_updates"
| "apply_operation p (Close_position addr sell_price why now) =
     snd (close_position p addr sell_price why now)"

fun run :: "Portfolio \<Rightarrow> operation list \<Rightarrow> Portfolio" where
  "run p [] = p"
| "run p (op # ops) = run (apply_operation p op) ops"

text \<open>An \<open>add_position\<close> opens a new address when no position is held under it at the call.\<close>

fun opens_new_address :: "Portfolio \<Rightarrow> operation \<Rightarrow> bool" where
  "opens_new_address p (Add_position position) =
     (map_of (positions p) (token_address position) = None)"
| "opens_new_address p (Update_all_prices price_updates) = True"
| "opens_new_address p (Close_position addr sell_price why now) = True"

fun opens_only_new :: "Portfolio \<Rightarrow> operation list \<Rightarrow> bool" where
  "opens_only_new p [] = True"
| "opens_only_new p (op # ops) =
     (opens_new_address p op \<and> opens_only_new (apply_operation p op) ops)"

text \<open>The money paid for the open positions: \<open>quantity \<times> entry_price\<close>, summed.\<close>

definition cost_basis_total :: "Portfolio \<Rightarrow> real" where
  "cost_basis_total p =
     sum_list (map (\<lambda>(a, pos). quantity pos * entry_price pos) (positions p))"

text \<open>The reconciliation equation of the specification, on the two getters.\<close>

definition reconciled :: "Portfolio \<Rightarrow> bool" where
  "reconciled p \<longleftrightarrow> get_total_value p = starting_balance p + get_total_pnl p"

text \<open>A price map is complete for a portfolio when it has a price for every open address.\<close>

definition covers :: "(string \<rightharpoonup> real) \<Rightarrow> Portfolio \<Rightarrow> bool" where
  "covers price_updates p \<longleftrightarrow>
     list_all (\<lambda>(a, pos). price_updates a \<noteq> None) (positions p)"

text \<open>
  The books balance when the open addresses are pairwise different and the cash plus the cost
  of the open positions is the starting balance plus the realized pnl.
\<close>

definition books_balance :: "Portfolio \<Rightarrow> bool" where
  "books_balance p \<longleftrightarrow>
     distinct (map fst (positions p)) \<and>
     current_balance p + cost_basis_total p = starting_balance p + total_realized_pnl p"

section \<open>dexscreener\_api.py\<close>

record TokenData =
  address :: string
  symbol :: string
  name :: string
  price_usd :: real
  price_change_24h :: real
  volume_24h :: real
  liquidity_usd :: real
  market_cap :: real
  fdv :: real
  chain :: string
  pair_address :: string
  created_at :: string

section \<open>multi\_timeframe\_analyzer.py\<close>

record TimeframeData =
  timeframe :: string
  price_change :: real
  volume_avg :: real
  volume_trend :: string
  price_momentum :: string
  support_level :: real
  resistance_level :: real
  volatility :: real

record MultiTimeframeAnalysis =
  token :: TokenData
  timeframes :: "(string \<times> TimeframeData) list"
  overall_trend :: string
  overall_score :: real
  entry_timing :: string
  risk_reward_ratio :: real
  confidence_level :: real
  analysis_timestamp :: datetime

text \<open>
  \<open>numpy.mean\<close> returns a \<open>numpy.float64\<close>, whose division does not raise on a zero divisor: it
  yields an infinity or a NaN, and every comparison with a NaN is false.
\<close>

datatype np_float = Finite real | PosInf | NegInf | NaN

definition np_divide :: "real \<Rightarrow> real \<Rightarrow> np_float" where
  "np_divide a b =
     (if b \<noteq> 0 then Finite (a / b)
      else if a > 0 then PosInf else if a < 0 then NegInf else NaN)"

fun np_greater :: "np_float \<Rightarrow> real \<Rightarrow> bool" where
  "np_greater (Finite x) c = (x > c)"
| "np_greater PosInf c = True"
| "np_greater NegInf c = False"
| "np_greater NaN c = False"

fun np_less :: "np_float \<Rightarrow> real \<Rightarrow> bool" where
  "np_less (Finite x) c = (x < c)"
| "np_less PosInf c = False"
| "np_less NegInf c = True"
| "np_less NaN c = False"

definition calculate_volume_trend :: "real list \<Rightarrow> string" where
  "calculate_volume_trend volumes =
     (if length volumes < 2 then ''stable''
      else
        (let avg_first_half = np_mean (take (length volumes div 2) volumes);
             avg_second_half = np_mean (drop (length volumes div 2) volumes);
             ratio = np_divide avg_second_half (avg_first_half + 1)
         in if np_greater ratio 1.3 then ''increasing''
            else if np_less ratio 0.7 then ''decreasing''
            else ''stable''))"

text \<open>The two list comprehensions of \<open>calculate_risk_reward\<close> over \<open>timeframes.values()\<close>.\<close>

definition positive_supports :: "(string \<times> TimeframeData) list \<Rightarrow> real list" where
  "positive_supports tfs =
     map support_level (filter (\<lambda>tf. support_level tf > 0) (map snd tfs))"

definition positive_resistances :: "(string \<times> TimeframeData) list \<Rightarrow> real list" where
  "positive_resistances tfs =
     map resistance_level (filter (\<lambda>tf. resistance_level tf > 0) (map snd tfs))"

definition calculate_risk_reward :: "TokenData \<Rightarrow> (string \<times> TimeframeData) list \<Rightarrow> real" where
  "calculate_risk_reward tok tfs =
     (let supports = positive_supports tfs;
          resistances = positive_resistances tfs
      in if supports = [] \<or> resistances = [] then 1.0
         else
           (let avg_support = np_mean supports;
                avg_resistance = np_mean resistances;
                potential_loss = \<bar>price_usd tok - avg_support\<bar>;
                potential_gain = \<bar>avg_resistance - price_usd tok\<bar>
            in if potential_loss = 0 then 3.0
               else min (potential_gain / potential_loss) 3.0))"

text \<open>
  \<open>_generate_mock_price_history\<close>.  The values that \<open>np.random.normal\<close> returns (Python
  floats) are the argument \<open>draws\<close>: \<open>draws timeframe i\<close> is the \<open>change\<close> of step \<open>i\<close> of that
  timeframe.  \<open>mock_walk\<close> is the inner loop, from the running price \<open>p\<close> and the step index.
\<close>

fun mock_walk :: "real \<Rightarrow> (nat \<Rightarrow> real) \<Rightarrow> nat \<Rightarrow> nat \<Rightarrow> real list" where
  "mock_walk p draw i 0 = []"
| "mock_walk p draw i (Suc n) =
     (let p' = p * (1 + draw i) in p' # mock_walk p' draw (Suc i) n)"

fun mock_price_loop ::
  "TokenData \<Rightarrow> (string \<Rightarrow> nat \<Rightarrow> real) \<Rightarrow> (string \<times> nat) list
     \<Rightarrow> py_error + (string \<times> real list) list" where
  "mock_price_loop tok draws [] = Inr []"
| "mock_price_loop tok draws ((tf, points) # others) =
     (case py_div (price_usd tok) (1 + price_change_24h tok / 100) of
        Inl e \<Rightarrow> Inl e
      | Inr start \<Rightarrow>
          (let prices = mock_walk start (draws tf) 0 points;
               prices = prices[length prices - 1 := price_usd tok]
           in case mock_price_loop tok draws others of
                Inl e \<Rightarrow> Inl e
              | Inr history \<Rightarrow> Inr ((tf, prices) # history)))"

definition generate_mock_price_history ::
  "TokenData \<Rightarrow> (string \<Rightarrow> nat \<Rightarrow> real) \<Rightarrow> py_error + (string \<times> real list) list" where
  "generate_mock_price_history tok draws =
     mock_price_loop tok draws
       [(''1h'', 12), (''4h'', 12), (''12h'', 12), (''24h'', 24), (''3d'', 36)]"

text \<open>
  The first statement of \<open>analyze_timeframe\<close>: the price change over the series, a division of
  Python floats, or the token's 24h change when the series is empty.
\<close>

definition timeframe_price_change :: "TokenData \<Rightarrow> real list \<Rightarrow> py_error + real" where
  "timeframe_price_change tok historical_prices =
     (if historical_prices \<noteq> []
      then (case py_div (last historical_prices - hd historical_prices) (hd historical_prices) of
              Inl e \<Rightarrow> Inl e
            | Inr q \<Rightarrow> Inr (q * 100))
      else Inr (price_change_24h tok))"

text \<open>
  \<open>MultiTimeframeAnalyzer.analyze_token\<close> as \<open>_analyze_existing_position\<close> calls it, without
  histories: the mock price history is generated (the mock volume history that follows does
  not raise), then \<open>analyze_timeframe\<close> starts on \<open>1h\<close> with the price change.  What comes
  after that statement (means, percentiles, standard deviations and the aggregation over the
  five timeframes) is not modelled: its outcome, the analysis returned or the exception
  raised, is the argument \<open>remainder\<close>.
\<close>

definition analyzer_analyze_token ::
  "(string \<Rightarrow> nat \<Rightarrow> real) \<Rightarrow> py_error + MultiTimeframeAnalysis \<Rightarrow> TokenData
     \<Rightarrow> py_error + MultiTimeframeAnalysis" where
  "analyzer_analyze_token draws remainder tok =
     (case generate_mock_price_history tok draws of
        Inl e \<Rightarrow> Inl e
      | Inr price_history \<Rightarrow>
          (case timeframe_price_change tok
                  (case map_of price_history ''1h'' of Some prices \<Rightarrow> prices | None \<Rightarrow> []) of
             Inl e \<Rightarrow> Inl e
           | Inr change \<Rightarrow> remainder))"

section \<open>token\_similarity.py\<close>

text \<open>
  The entries of \<open>self.reference_tokens\<close>, and the dictionaries that \<open>analyze_token\<close> and its
  helpers return, are records with the keys as fields.
\<close>

record Reference_profile =
  market_cap_range :: "real \<times> real"
  volume_to_mcap_ratio :: "real \<times> real"
  price_volatility :: string
  liquidity_threshold :: real
  age_hours :: "real \<times> real"

definition DUST_profile :: Reference_profile where
  "DUST_profile =
     \<lparr>market_cap_range = (1000000, 50000000), volume_to_mcap_ratio = (0.5, 3.0),
      price_volatility = ''high'', liquidity_threshold = 100000, age_hours = (1, 168)\<rparr>"

record Volume_activity =
  ratio :: real
  rating :: string
  dollar_volume :: real

record Liquidity_health =
  liquidity_usd :: real
  ratio :: real
  health :: string

record Price_action =
  change_24h :: real
  momentum :: string

record Token_analysis =
  market_cap_tier :: string
  volume_activity :: Volume_activity
  liquidity_health :: Liquidity_health
  price_momentum :: Price_action
  risk_level :: string
  opportunity_score :: int

record SimilarityMetrics =
  token :: TokenData
  similarity_score :: real
  matching_features :: "(string \<times> real) list"
  analysis :: Token_analysis

definition get_mcap_tier :: "real \<Rightarrow> string" where
  "get_mcap_tier mc =
     (if mc < 100000 then ''nano''
      else if mc < 1000000 then ''micro''
      else if mc < 10000000 then ''small''
      else if mc < 100000000 then ''mid''
      else ''large'')"

definition analyze_volume :: "TokenData \<Rightarrow> py_error + Volume_activity" where
  "analyze_volume tok =
     (case py_div (volume_24h tok) (market_cap tok + 1) of
        Inl e \<Rightarrow> Inl e
      | Inr volume_to_mcap \<Rightarrow>
          Inr \<lparr>Volume_activity.ratio = volume_to_mcap,
               rating = (if volume_to_mcap > 2 then ''very_high''
                         else if volume_to_mcap > 1 then ''high''
                         else if volume_to_mcap > 0.5 then ''moderate''
                         else if volume_to_mcap > 0.1 then ''low'' else ''very_low''),
               dollar_volume = volume_24h tok\<rparr>)"

definition analyze_liquidity :: "TokenData \<Rightarrow> py_error + Liquidity_health" where
  "analyze_liquidity tok =
     (case py_div (TokenData.liquidity_usd tok) (market_cap tok + 1) of
        Inl e \<Rightarrow> Inl e
      | Inr liq_to_mcap \<Rightarrow>
          Inr \<lparr>Liquidity_health.liquidity_usd = TokenData.liquidity_usd tok,
               Liquidity_health.ratio = liq_to_mcap,
               health = (if liq_to_mcap > 0.5 then ''excellent''
                         else if liq_to_mcap > 0.2 then ''good''
                         else if liq_to_mcap > 0.1 then ''fair''
                         else if liq_to_mcap > 0.05 then ''poor'' else ''critical'')\<rparr>)"

definition analyze_price_action :: "TokenData \<Rightarrow> Price_action" where
  "analyze_price_action tok =
     (let c = price_change_24h tok
      in \<lparr>change_24h = c,
          momentum = (if c > 100 then ''explosive''
                      else if c > 50 then ''strong_bullish''
                      else if c > 20 then ''bullish''
                      else if c > 5 then ''mild_bullish''
                      else if \<bar>c\<bar> \<le> 5 then ''neutral''
                      else if c > -20 then ''mild_bearish''
                      else if c > -50 then ''bearish'' else ''strong_bearish'')\<rparr>)"

text \<open>
  \<open>_calculate_risk\<close> reads the clock and parses \<open>created_at\<close> inside \<open>try\<close>; the outcome of that
  block is the argument \<open>age\<close>: the age in hours, or \<open>None\<close> when the block raised.
\<close>

definition calculate_risk :: "real option \<Rightarrow> TokenData \<Rightarrow> string" where
  "calculate_risk age tok =
     (let r0 = (if TokenData.liquidity_usd tok < 50000 then 2
                else if TokenData.liquidity_usd tok < 100000 then 1 else (0::int));
          r1 = (if \<bar>price_change_24h tok\<bar> > 50 then r0 + 1 else r0);
          r2 = (case age of
                  Some hours \<Rightarrow> (if hours < 24 then r1 + 2
                                  else if hours < 72 then r1 + 1 else r1)
                | None \<Rightarrow> r1 + 1);
          risk_factors = (if market_cap tok < 1000000 then r2 + 1 else r2)
      in if risk_factors \<ge> 4 then ''extreme''
         else if risk_factors \<ge> 3 then ''high''
         else if risk_factors \<ge> 2 then ''moderate''
         else ''low'')"

text \<open>The four blocks of \<open>_calculate_opportunity\<close>; each adds its points to \<open>score\<close>.\<close>

definition volume_points :: "real \<Rightarrow> int" where
  "volume_points volume_ratio =
     (if volume_ratio > 2 then 30
      else if volume_ratio > 1 then 20
      else if volume_ratio > 0.5 then 10 else 0)"

definition momentum_points :: "TokenData \<Rightarrow> int" where
  "momentum_points tok =
     (if 20 \<le> price_change_24h tok \<and> price_change_24h tok \<le> 100 then 20
      else if 10 \<le> price_change_24h tok \<and> price_change_24h tok < 20 then 15
      else if 5 \<le> price_change_24h tok \<and> price_change_24h tok < 10 then 10 else 0)"

definition liquidity_points :: "TokenData \<Rightarrow> int" where
  "liquidity_points tok =
     (if TokenData.liquidity_usd tok > 200000 then 20
      else if TokenData.liquidity_usd tok > 100000 then 15
      else if TokenData.liquidity_usd tok > 50000 then 10 else 0)"

definition market_cap_points :: "TokenData \<Rightarrow> int" where
  "market_cap_points tok =
     (if 1000000 \<le> market_cap tok \<and> market_cap tok \<le> 10000000 then 30
      else if 500000 \<le> market_cap tok \<and> market_cap tok < 1000000 then 20
      else if 10000000 < market_cap tok \<and> market_cap tok \<le> 50000000 then 15 else 0)"

definition calculate_opportunity :: "TokenData \<Rightarrow> py_error + int" where
  "calculate_opportunity tok =
     (case py_div (volume_24h tok) (market_cap tok + 1) of
        Inl e \<Rightarrow> Inl e
      | Inr volume_ratio \<Rightarrow>
          (let score = 0;
               score = score + volume_points volume_ratio;
               score = score + momentum_points tok;
               score = score + liquidity_points tok;
               score = score + market_cap_points tok
           in Inr (min score 100)))"

text \<open>
  \<open>TokenSimilarityDetector.analyze_token\<close>: the dictionary is built entry by entry, so the first
  helper that raises ends the call.
\<close>

definition analyze_token :: "real option \<Rightarrow> TokenData \<Rightarrow> py_error + Token_analysis" where
  "analyze_token age tok =
     (case analyze_volume tok of
        Inl e \<Rightarrow> Inl e
      | Inr vol \<Rightarrow>
          (case analyze_liquidity tok of
             Inl e \<Rightarrow> Inl e
           | Inr liq \<Rightarrow>
               (case calculate_opportunity tok of
                  Inl e \<Rightarrow> Inl e
                | Inr opp \<Rightarrow>
                    Inr \<lparr>market_cap_tier = get_mcap_tier (market_cap tok),
                         volume_activity = vol,
                         liquidity_health = liq,
                         Token_analysis.price_momentum = analyze_price_action tok,
                         risk_level = calculate_risk age tok,
                         opportunity_score = opp\<rparr>)))"

text \<open>
  The loop of \<open>find_dust_like_tokens\<close> over \<open>candidates\<close>, building \<open>filtered\<close>: the three
  \<open>continue\<close> gates, then the analysis and the appended entry.  \<open>age_of\<close> gives, for each
  token, the outcome of the clock-and-parse block of \<open>_calculate_risk\<close>.
\<close>

fun dust_filtered ::
  "(TokenData \<Rightarrow> real option) \<Rightarrow> TokenData list \<Rightarrow> py_error + SimilarityMetrics list" where
  "dust_filtered age_of [] = Inr []"
| "dust_filtered age_of (tok # rest) =
     (if \<not> (fst (market_cap_range DUST_profile) \<le> market_cap tok
             \<and> market_cap tok \<le> snd (market_cap_range DUST_profile))
      then dust_filtered age_of rest
      else
        (case py_div (volume_24h tok) (market_cap tok + 1) of
           Inl e \<Rightarrow> Inl e
         | Inr volume_ratio \<Rightarrow>
             if \<not> (fst (volume_to_mcap_ratio DUST_profile) \<le> volume_ratio
                   \<and> volume_ratio \<le> snd (volume_to_mcap_ratio DUST_profile))
             then dust_filtered age_of rest
             else if TokenData.liquidity_usd tok < liquidity_threshold DUST_profile
             then dust_filtered age_of rest
             else
               (case analyze_token (age_of tok) tok of
                  Inl e \<Rightarrow> Inl e
                | Inr an \<Rightarrow>
                    (case dust_filtered age_of rest of
                       Inl e \<Rightarrow> Inl e
                     | Inr filtered \<Rightarrow>
                         Inr (\<lparr>SimilarityMetrics.token = tok,
                               similarity_score = real_of_int (opportunity_score an) / 100,
                               matching_features =
                                 [(''market_cap_match'', 1.0), (''volume_ratio_match'', 1.0),
                                  (''liquidity_match'', 1.0)],
                               analysis = an\<rparr> # filtered)))))"

text \<open>
  \<open>filtered.sort(key=lambda x: x.similarity_score, reverse=True)\<close>: a stable sort, descending
  in the key; entries with equal keys keep their order.
\<close>

definition sort_by_similarity :: "SimilarityMetrics list \<Rightarrow> SimilarityMetrics list" where
  "sort_by_similarity filtered = sort_key (\<lambda>x. - similarity_score x) filtered"

definition find_dust_like_tokens ::
  "(TokenData \<Rightarrow> real option) \<Rightarrow> TokenData list \<Rightarrow> py_error + SimilarityMetrics list" where
  "find_dust_like_tokens age_of candidates =
     (case dust_filtered age_of candidates of
        Inl e \<Rightarrow> Inl e
      | Inr filtered \<Rightarrow> Inr (sort_by_similarity filtered))"

section \<open>ai\_trading\_agent.py\<close>

datatype TradingStrategy = SCALPING | SWING | POSITION

record TradingDecision =
  action :: string
  token :: TokenData
  reason :: string
  confidence :: real
  suggested_amount :: real
  strategy :: TradingStrategy
  analysis :: MultiTimeframeAnalysis

record AgentState =
  total_trades :: nat
  successful_trades :: nat
  failed_trades :: nat
  total_profit :: real
  best_trade :: "(string \<times> real) list option"
  worst_trade :: "(string \<times> real) list option"
  current_strategy_preference :: TradingStrategy

definition AgentState_init :: AgentState where
  "AgentState_init =
     \<lparr>total_trades = 0, successful_trades = 0, failed_trades = 0, total_profit = 0,
      best_trade = None, worst_trade = None, current_strategy_preference = SWING\<rparr>"

text \<open>
  The agent's mutable attributes.  The three collaborators (\<open>api\<close>, \<open>analyzer\<close>,
  \<open>similarity_detector\<close>) hold no state that the functions below read.
\<close>

record AITradingAgent =
  portfolio :: PortfolioManager
  state :: AgentState
  min_capital_reserve :: real
  max_position_size :: real
  max_positions :: nat
  min_confidence :: real
  stop_loss_pct :: real
  take_profit_targets :: "TradingStrategy \<rightharpoonup> real"
  analyzed_tokens :: "(string \<times> MultiTimeframeAnalysis) list"
  watchlist :: "string list"

definition AITradingAgent_init :: "real \<Rightarrow> AITradingAgent" where
  "AITradingAgent_init starting =
     \<lparr>portfolio = PortfolioManager_init starting,
      state = AgentState_init,
      min_capital_reserve = 500.0,
      max_position_size = 0.2,
      max_positions = 5,
      min_confidence = 65,
      stop_loss_pct = 15,
      take_profit_targets = [SCALPING \<mapsto> 25, SWING \<mapsto> 50, POSITION \<mapsto> 100],
      analyzed_tokens = [],
      watchlist = []\<rparr>"

text \<open>\<open>self.portfolio.portfolio\<close>.\<close>

definition the_portfolio :: "AITradingAgent \<Rightarrow> Portfolio" where
  "the_portfolio agent = PortfolioManager.portfolio (AITradingAgent.portfolio agent)"

definition get_available_capital :: "AITradingAgent \<Rightarrow> real" where
  "get_available_capital agent =
     (let total_value = get_total_value (the_portfolio agent)
      in max 0 (total_value - min_capital_reserve agent))"

definition calculate_position_size :: "AITradingAgent \<Rightarrow> real \<Rightarrow> real \<Rightarrow> real" where
  "calculate_position_size agent token_price conf =
     (let available = get_available_capital agent;
          confidence_factor = (conf - 50) / 50;
          position_pct = 0.1 + (0.1 * confidence_factor);
          position_value = available * position_pct
      in if token_price > 0 then position_value / token_price else 0)"

text \<open>Storing a portfolio back into \<open>self.portfolio.portfolio\<close>.\<close>

definition with_portfolio :: "AITradingAgent \<Rightarrow> Portfolio \<Rightarrow> AITradingAgent" where
  "with_portfolio agent p =
     agent\<lparr>AITradingAgent.portfolio :=
             (AITradingAgent.portfolio agent)\<lparr>PortfolioManager.portfolio := p\<rparr>\<rparr>"

text \<open>
  The exit conditions of \<open>_analyze_existing_position\<close>: the \<open>if\<close>/\<open>elif\<close> chain that sets
  \<open>should_sell\<close> and \<open>reason\<close>, returned as a pair.  \<open>fmt\<close> is the formatting \<open>{:.1f}\<close> of a
  float; \<open>now\<close> is the value of \<open>datetime.utcnow()\<close>, read in the scalping branch only.
\<close>

definition exit_conditions ::
  "(real \<Rightarrow> string) \<Rightarrow> AITradingAgent \<Rightarrow> Position \<Rightarrow> MultiTimeframeAnalysis \<Rightarrow> datetime
     \<Rightarrow> bool \<times> string" where
  "exit_conditions fmt agent position an now =
     (let pref = current_strategy_preference (state agent)
      in if pnl_percent position \<le> - stop_loss_pct agent
         then (True, ''Stop loss triggered ('' @ fmt (pnl_percent position) @ ''%)'')
         else if pnl_percent position
                   \<ge> (case take_profit_targets agent pref of Some target \<Rightarrow> target | None \<Rightarrow> 50)
         then (True, ''Take profit target reached ('' @ fmt (pnl_percent position) @ ''%)'')
         else if overall_trend an \<in> set [''bearish'', ''strong_bearish'']
                 \<and> pnl_percent position > 10
         then (True, ''Trend reversal detected, securing '' @ fmt (pnl_percent position)
                       @ ''% profit'')
         else if pref = SCALPING
         then (let hours_held = (now - entry_time position) / 3600
               in if hours_held > 4 \<and> pnl_percent position > 5
                  then (True, ''Scalping time limit reached with ''
                                @ fmt (pnl_percent position) @ ''% profit'')
                  else (False, []))
         else (False, []))"

text \<open>
  \<open>_analyze_existing_position\<close>.  The position is updated in place, then the analyzer is
  awaited (\<open>draws\<close> and \<open>remainder\<close> are the arguments of \<open>analyzer_analyze_token\<close>), then
  the exit conditions are evaluated.  An exception of the analyzer leaves the function before
  the exit conditions; the agent that is left carries the new price in either case.
\<close>

definition analyze_existing_position ::
  "(real \<Rightarrow> string) \<Rightarrow> AITradingAgent \<Rightarrow> TokenData \<Rightarrow> (string \<Rightarrow> nat \<Rightarrow> real)
     \<Rightarrow> py_error + MultiTimeframeAnalysis \<Rightarrow> datetime
     \<Rightarrow> (py_error + TradingDecision option) \<times> AITradingAgent" where
  "analyze_existing_position fmt agent tok draws remainder now =
     (case map_of (positions (the_portfolio agent)) (address tok) of
        None \<Rightarrow> (Inr None, agent)
      | Some held \<Rightarrow>
          (let position = update_price held (price_usd tok);
               p = the_portfolio agent;
               agent' = with_portfolio agent
                          (p\<lparr>positions := AList.update (address tok) position (positions p)\<rparr>)
           in case analyzer_analyze_token draws remainder tok of
                Inl e \<Rightarrow> (Inl e, agent')
              | Inr an \<Rightarrow>
                  (let (should_sell, why) = exit_conditions fmt agent' position an now
                   in if should_sell
                      then (Inr (Some \<lparr>TradingDecision.action = ''sell'',
                                       TradingDecision.token = tok,
                                       TradingDecision.reason = why,
                                       confidence = 90,
                                       suggested_amount = quantity position,
                                       strategy = current_strategy_preference (state agent'),
                                       TradingDecision.analysis = an\<rparr>), agent')
                      else (Inr None, agent'))))"

text \<open>
  The sizing formula in the words of the specification, for comparison with
  \<open>calculate_position_size\<close>:
  \<open>available_capital \<times> (0.10 + 0.10 \<times> clamp((confidence - 50)/50, 0, 1)) / price\<close>.
\<close>

definition clamp :: "real \<Rightarrow> real \<Rightarrow> real \<Rightarrow> real" where
  "clamp x lo hi = max lo (min hi x)"

definition spec_invested_fraction :: "real \<Rightarrow> real" where
  "spec_invested_fraction conf = 0.10 + 0.10 * clamp ((conf - 50) / 50) 0 1"

definition spec_position_size :: "real \<Rightarrow> real \<Rightarrow> real \<Rightarrow> real" where
  "spec_position_size available token_price conf =
     available * spec_invested_fraction conf / token_price"

section \<open>Properties of the portfolio\<close>

subsection \<open>Auxiliary facts\<close>

lemma update_price_fields [simp]:
  "quantity (update_price pos x) = quantity pos"
  "entry_price (update_price pos x) = entry_price pos"
  "token_address (update_price pos x) = token_address pos"
  "position_value_usd (update_price pos x) = quantity pos * x"
  "pnl_usd (update_price pos x) = quantity pos * x - quantity pos * entry_price pos"
  by (simp_all add: update_price_def Let_def)

lemma update_positions_keys:
  "map fst (fst (update_positions m ps u)) = map fst ps"
  by (induction ps arbitrary: u) (auto simp: case_prod_beta Let_def split: option.splits)

lemma update_positions_cost:
  "sum_list (map (\<lambda>(a, pos). quantity pos * entry_price pos) (fst (update_positions m ps u)))
     = sum_list (map (\<lambda>(a, pos). quantity pos * entry_price pos) ps)"
  by (induction ps arbitrary: u) (auto simp: case_prod_beta Let_def split: option.splits)

lemma update_positions_complete:
  "list_all (\<lambda>(a, pos). m a \<noteq> None) ps \<Longrightarrow>
   sum_list (map (\<lambda>(a, pos). position_value_usd pos) (fst (update_positions m ps u))) + u
     = sum_list (map (\<lambda>(a, pos). quantity pos * entry_price pos) ps)
       + snd (update_positions m ps u)"
proof (induction ps arbitrary: u)
  case Nil
  then show ?case by simp
next
  case (Cons ap ps)
  obtain a pos where ap: "ap = (a, pos)" by (cases ap)
  from Cons.prems ap obtain x where x: "m a = Some x" by auto
  from Cons.prems have rest: "list_all (\<lambda>(a, pos). m a \<noteq> None) ps" by simp
  show ?case
    using Cons.IH [OF rest, of "u + pnl_usd (update_price pos x)"] ap x
    by (simp add: Let_def case_prod_beta)
qed

lemma alist_update_new:
  "map_of al k = None \<Longrightarrow> AList.update k v al = al @ [(k, v)]"
  by (induction al) (auto split: if_splits)

lemma alist_delete_absent:
  "k \<notin> fst ` set al \<Longrightarrow> AList.delete k al = al"
  by (induction al) (auto simp: AList.delete_eq)

lemma sum_list_alist_delete:
  fixes f :: "'k \<times> 'v \<Rightarrow> real"
  shows "distinct (map fst al) \<Longrightarrow> map_of al k = Some v \<Longrightarrow>
         sum_list (map f al) = f (k, v) + sum_list (map f (AList.delete k al))"
proof (induction al)
  case Nil
  then show ?case by simp
next
  case (Cons kv al)
  obtain k' v' where kv: "kv = (k', v')" by (cases kv)
  show ?case
  proof (cases "k' = k")
    case True
    with Cons.prems kv have "v' = v" by simp
    moreover from Cons.prems kv True have "AList.delete k al = al"
      by (simp add: alist_delete_absent)
    ultimately show ?thesis using kv True by (simp add: AList.delete_eq)
  next
    case False
    with Cons kv show ?thesis by (simp add: AList.delete_eq)
  qed
qed

lemma books_balance_init: "books_balance (Portfolio_init b)"
  by (simp add: books_balance_def Portfolio_init_def cost_basis_total_def)

lemma books_balance_add:
  "books_balance p \<Longrightarrow> map_of (positions p) (token_address pos) = None \<Longrightarrow>
   books_balance (add_position p pos)"
  by (simp add: books_balance_def add_position_def cost_basis_total_def alist_update_new
      map_of_eq_None_iff)

lemma books_balance_update:
  "books_balance p \<Longrightarrow> books_balance (update_all_prices p m)"
  using update_positions_keys [of m "positions p" 0] update_positions_cost [of m "positions p" 0]
  by (simp add: books_balance_def update_all_prices_def cost_basis_total_def case_prod_beta)

lemma books_balance_close:
  assumes "books_balance p"
  shows "books_balance (snd (close_position p addr x why now))"
proof (cases "map_of (positions p) addr")
  case None
  with assms show ?thesis by (simp add: close_position_def)
next
  case (Some held)
  from assms have d: "distinct (map fst (positions p))" by (simp add: books_balance_def)
  have "sum_list (map (\<lambda>(a, pos). quantity pos * entry_price pos) (positions p))
      = quantity held * entry_price held
        + sum_list (map (\<lambda>(a, pos). quantity pos * entry_price pos)
                     (AList.delete addr (positions p)))"
    using sum_list_alist_delete [OF d Some, of "\<lambda>(a, pos). quantity pos * entry_price pos"]
    by simp
  with assms Some d show ?thesis
    by (simp add: books_balance_def close_position_def cost_basis_total_def Let_def
        AList.distinct_delete)
qed

lemma books_balance_run:
  "books_balance p \<Longrightarrow> opens_only_new p ops \<Longrightarrow> books_balance (run p ops)"
proof (induction ops arbitrary: p)
  case Nil
  then show ?case by simp
next
  case (Cons op ops)
  from Cons.prems have "books_balance (apply_operation p op)"
    by (cases op) (simp_all add: books_balance_add books_balance_update books_balance_close)
  with Cons show ?case by simp
qed

lemma reconciled_after_complete_update:
  assumes "books_balance p" and "covers m p"
  shows "reconciled (update_all_prices p m)"
  using assms update_positions_complete [of m "positions p" 0]
  by (simp add: books_balance_def covers_def reconciled_def update_all_prices_def
      get_total_value_def get_total_pnl_def cost_basis_total_def case_prod_beta)

lemma run_snoc: "run p (ops @ [op]) = apply_operation (run p ops) op"
  by (induction ops arbitrary: p) simp_all

lemma opens_only_new_take:
  "opens_only_new p ops \<Longrightarrow> opens_only_new p (take n ops)"
proof (induction ops arbitrary: p n)
  case Nil
  then show ?case by simp
next
  case (Cons op ops)
  then show ?case by (cases n) simp_all
qed

subsection \<open>Reconciliation\<close>

text \<open>
  C1, as the code has it.  Take any sequence of \<open>add_position\<close>, \<open>update_all_prices\<close> and
  \<open>close_position\<close> calls on a fresh portfolio in which every \<open>add_position\<close> opens an address
  that is not open at that moment.  After every operation of the sequence (after its first
  \<open>n\<close> operations, for every \<open>n\<close>) the open addresses are pairwise different and the cash plus
  the cost \<open>quantity \<times> entry_price\<close> of the open positions equals
  \<open>starting_balance + total_realized_pnl\<close>.  And after every operation of the sequence that
  is an \<open>update_all_prices\<close> whose price map has a price for every open address,
  \<open>current_balance + \<Sum> position_value_usd = starting_balance + total_realized_pnl +
  total_unrealized_pnl\<close>.
\<close>

theorem portfolio_reconciliation:
  assumes "opens_only_new (Portfolio_init b) ops"
  shows "books_balance (run (Portfolio_init b) (take n ops))
       \<and> (n < length ops \<and> ops ! n = Update_all_prices m
            \<and> covers m (run (Portfolio_init b) (take n ops))
          \<longrightarrow> reconciled (run (Portfolio_init b) (take (Suc n) ops)))"
proof -
  have bb: "books_balance (run (Portfolio_init b) (take n ops))"
    using books_balance_run [OF books_balance_init opens_only_new_take [OF assms]] .
  have "reconciled (run (Portfolio_init b) (take (Suc n) ops))"
    if "n < length ops" "ops ! n = Update_all_prices m"
       "covers m (run (Portfolio_init b) (take n ops))"
    using that reconciled_after_complete_update [OF bb]
    by (simp add: take_Suc_conv_app_nth run_snoc)
  with bb show ?thesis by blast
qed

theorem portfolio_reconciliation_witness:
  "opens_only_new (Portfolio_init 1000)
     [Add_position (Position_init ''DUST'' ''0xA'' 2 2 10 0),
      Add_position (Position_init ''WAGMI'' ''0xB'' 1 1 5 0),
      Close_position ''0xA'' 4 ''Take profit'' 50,
      Update_all_prices [''0xB'' \<mapsto> 3]]
   \<and> covers [''0xB'' \<mapsto> 3]
       (run (Portfolio_init 1000)
         (take 3 [Add_position (Position_init ''DUST'' ''0xA'' 2 2 10 0),
          Add_position (Position_init ''WAGMI'' ''0xB'' 1 1 5 0),
          Close_position ''0xA'' 4 ''Take profit'' 50,
          Update_all_prices [''0xB'' \<mapsto> 3]]))
   \<and> reconciled
       (run (Portfolio_init 1000)
         [Add_position (Position_init ''DUST'' ''0xA'' 2 2 10 0),
          Add_position (Position_init ''WAGMI'' ''0xB'' 1 1 5 0),
          Close_position ''0xA'' 4 ''Take profit'' 50,
          Update_all_prices [''0xB'' \<mapsto> 3]])"
proof -
  let ?ops = "[Add_position (Position_init ''DUST'' ''0xA'' 2 2 10 0),
      Add_position (Position_init ''WAGMI'' ''0xB'' 1 1 5 0),
      Close_position ''0xA'' 4 ''Take profit'' 50,
      Update_all_prices [''0xB'' \<mapsto> 3]]"
  have fresh: "opens_only_new (Portfolio_init 1000) ?ops"
    by (simp add: Portfolio_init_def Position_init_def add_position_def)
  have t3: "take 3 ?ops = [Add_position (Position_init ''DUST'' ''0xA'' 2 2 10 0),
      Add_position (Position_init ''WAGMI'' ''0xB'' 1 1 5 0),
      Close_position ''0xA'' 4 ''Take profit'' 50]"
    by (simp add: numeral_3_eq_3)
  have t4: "take (Suc 3) ?ops = ?ops"
    by simp
  have cov: "covers [''0xB'' \<mapsto> 3] (run (Portfolio_init 1000) (take 3 ?ops))"
    unfolding t3
    by (simp add: covers_def Portfolio_init_def Position_init_def add_position_def
        close_position_def Let_def AList.delete_eq)
  have nth: "3 < length ?ops \<and> ?ops ! 3 = Update_all_prices [''0xB'' \<mapsto> 3]"
    by (simp add: numeral_3_eq_3)
  from portfolio_reconciliation [OF fresh, of 3 "[''0xB'' \<mapsto> 3]"] cov nth
  have "reconciled (run (Portfolio_init 1000) (take (Suc 3) ?ops))" by blast
  with fresh cov show ?thesis unfolding t4 by blast
qed

text \<open>
  The equation does not hold after every operation: a position built by the constructor has
  \<open>position_value_usd = 0\<close>, so right after \<open>add_position\<close> the total value has dropped by the
  cost of the position while no pnl is recorded.
\<close>

theorem reconciliation_after_add_counterexample:
  "\<not> reconciled (run (Portfolio_init 1000)
        [Add_position (Position_init ''DUST'' ''0xA'' 2 2 10 0)])"
  by (simp add: reconciled_def get_total_value_def get_total_pnl_def add_position_def
      Portfolio_init_def Position_init_def)

subsection \<open>Opening a position under an address that is already open\<close>

text \<open>
  C2, as the code has it.  \<open>add_position\<close> has no guard: when a position is already held under
  the address of the new one, the new position takes its place (under the same key, the other
  entries untouched), its cost is deducted from the cash and a buy trade is appended.
\<close>

theorem add_position_overwrites:
  assumes "map_of (positions p) (token_address position) = Some held"
  shows "map_of (positions (add_position p position)) (token_address position) = Some position
       \<and> map fst (positions (add_position p position)) = map fst (positions p)
       \<and> (\<forall>a. a \<noteq> token_address position \<longrightarrow>
              map_of (positions (add_position p position)) a = map_of (positions p) a)
       \<and> current_balance (add_position p position)
            = current_balance p - quantity position * entry_price position
       \<and> trade_history (add_position p position) = trade_history p @ [buy_trade position]"
proof -
  from assms have "token_address position \<in> fst ` set (positions p)"
    by (metis map_of_eq_None_iff option.distinct(1))
  then show ?thesis
    by (simp add: add_position_def AList.update_conv' AList.update_keys)
qed

theorem add_position_overwrites_witness:
  "map_of (positions (add_position (Portfolio_init 1000)
       (Position_init ''DUST'' ''0xA'' 2 2 10 0))) ''0xA''
     = Some (Position_init ''DUST'' ''0xA'' 2 2 10 0)
   \<and> map_of (positions (add_position (add_position (Portfolio_init 1000)
       (Position_init ''DUST'' ''0xA'' 2 2 10 0)) (Position_init ''DUST'' ''0xA'' 3 3 5 100)))
       ''0xA''
     = Some (Position_init ''DUST'' ''0xA'' 3 3 5 100)
   \<and> current_balance (add_position (add_position (Portfolio_init 1000)
       (Position_init ''DUST'' ''0xA'' 2 2 10 0)) (Position_init ''DUST'' ''0xA'' 3 3 5 100))
     = 965"
proof -
  let ?p = "add_position (Portfolio_init 1000) (Position_init ''DUST'' ''0xA'' 2 2 10 0)"
  let ?new = "Position_init ''DUST'' ''0xA'' 3 3 5 100"
  have held: "map_of (positions ?p) (token_address ?new)
                = Some (Position_init ''DUST'' ''0xA'' 2 2 10 0)"
    by (simp add: add_position_def Portfolio_init_def Position_init_def)
  have addr: "token_address ?new = ''0xA''"
    by (simp add: Position_init_def)
  have cash: "current_balance ?p - quantity ?new * entry_price ?new = 965"
    by (simp add: add_position_def Portfolio_init_def Position_init_def)
  from add_position_overwrites [OF held] held addr cash show ?thesis by simp
qed

text \<open>
  The second open is not refused: on a portfolio that holds a position under \<open>0xA\<close>, another
  \<open>add_position\<close> for \<open>0xA\<close> changes the positions, the cash and the trade history.
\<close>

theorem add_position_refusal_counterexample:
  "map_of (positions (add_position (Portfolio_init 1000)
       (Position_init ''DUST'' ''0xA'' 2 2 10 0))) ''0xA'' \<noteq> None
   \<and> positions (add_position (add_position (Portfolio_init 1000)
       (Position_init ''DUST'' ''0xA'' 2 2 10 0)) (Position_init ''DUST'' ''0xA'' 3 3 5 100))
     \<noteq> positions (add_position (Portfolio_init 1000) (Position_init ''DUST'' ''0xA'' 2 2 10 0))
   \<and> current_balance (add_position (add_position (Portfolio_init 1000)
       (Position_init ''DUST'' ''0xA'' 2 2 10 0)) (Position_init ''DUST'' ''0xA'' 3 3 5 100))
     \<noteq> current_balance (add_position (Portfolio_init 1000)
          (Position_init ''DUST'' ''0xA'' 2 2 10 0))
   \<and> trade_history (add_position (add_position (Portfolio_init 1000)
       (Position_init ''DUST'' ''0xA'' 2 2 10 0)) (Position_init ''DUST'' ''0xA'' 3 3 5 100))
     \<noteq> trade_history (add_position (Portfolio_init 1000)
          (Position_init ''DUST'' ''0xA'' 2 2 10 0))"
  by (simp add: add_position_def Portfolio_init_def Position_init_def)

subsection \<open>A price map that leaves out an open position\<close>

lemma update_positions_absent:
  "m a = None \<Longrightarrow> map_of (fst (update_positions m ps u)) a = map_of ps a"
  by (induction ps arbitrary: u) (auto simp: case_prod_beta Let_def split: option.splits)

lemma update_positions_present:
  "m a = Some x \<Longrightarrow>
   map_of (fst (update_positions m ps u)) a
     = map_option (\<lambda>pos. update_price pos x) (map_of ps a)"
  by (induction ps arbitrary: u) (auto simp: case_prod_beta Let_def split: option.splits)

lemma update_positions_total:
  "snd (update_positions m ps u)
     = u + sum_list (map (\<lambda>(a, pos). pnl_usd pos)
                      (filter (\<lambda>(a, pos). m a \<noteq> None) (fst (update_positions m ps u))))"
  by (induction ps arbitrary: u) (auto simp: case_prod_beta Let_def split: option.splits)

text \<open>
  What \<open>update_all_prices\<close> does with any price map: a position whose address has a price is
  updated to it, every other position is left as it was, and \<open>total_unrealized_pnl\<close> becomes
  the sum of \<open>pnl_usd\<close> over the positions whose address has a price.
\<close>

lemma update_all_prices_effect:
  "(price_updates a = None \<longrightarrow>
      map_of (positions (update_all_prices p price_updates)) a = map_of (positions p) a)
   \<and> (\<forall>x. price_updates a = Some x \<longrightarrow>
      map_of (positions (update_all_prices p price_updates)) a
        = map_option (\<lambda>pos. update_price pos x) (map_of (positions p) a))
   \<and> total_unrealized_pnl (update_all_prices p price_updates)
       = sum_list (map (\<lambda>(a, pos). pnl_usd pos)
           (filter (\<lambda>(a, pos). price_updates a \<noteq> None)
              (positions (update_all_prices p price_updates))))"
  using update_positions_total [of price_updates "positions p" 0]
  by (simp add: update_all_prices_def case_prod_beta update_positions_absent
      update_positions_present)

text \<open>
  C3.  Two positions are open and both have been priced (pnl 10 and 5).  A second
  \<open>update_all_prices\<close> gives a price for \<open>0xA\<close> only.  The position under \<open>0xB\<close> keeps its
  fields, with its pnl of 5, yet \<open>total_unrealized_pnl\<close> is the pnl of \<open>0xA\<close> alone: 20, where
  the pnl of the open positions sums to 25.
\<close>

theorem partial_update_drops_unrefreshed_pnl:
  "map (\<lambda>(a, pos). pnl_usd pos)
       (positions (run (Portfolio_init 1000)
          [Add_position (Position_init ''DUST'' ''0xA'' 2 2 10 0),
           Add_position (Position_init ''WAGMI'' ''0xB'' 1 1 5 0),
           Update_all_prices [''0xA'' \<mapsto> 3, ''0xB'' \<mapsto> 2],
           Update_all_prices [''0xA'' \<mapsto> 4]])) = [20, 5]
   \<and> total_unrealized_pnl (run (Portfolio_init 1000)
          [Add_position (Position_init ''DUST'' ''0xA'' 2 2 10 0),
           Add_position (Position_init ''WAGMI'' ''0xB'' 1 1 5 0),
           Update_all_prices [''0xA'' \<mapsto> 3, ''0xB'' \<mapsto> 2]]) = 15
   \<and> total_unrealized_pnl (run (Portfolio_init 1000)
          [Add_position (Position_init ''DUST'' ''0xA'' 2 2 10 0),
           Add_position (Position_init ''WAGMI'' ''0xB'' 1 1 5 0),
           Update_all_prices [''0xA'' \<mapsto> 3, ''0xB'' \<mapsto> 2],
           Update_all_prices [''0xA'' \<mapsto> 4]]) = 20"
  by (simp add: Portfolio_init_def Position_init_def add_position_def update_all_prices_def
      update_price_def Let_def)

subsection \<open>Closing a position: the win and loss counters\<close>

text \<open>
  C10.  When \<open>close_position\<close> succeeds on the position held under \<open>addr\<close>, the final pnl is
  \<open>pnl_usd (update_price held sell_price)\<close>.  Exactly one counter goes up by one: \<open>win_count\<close>
  when that pnl is strictly positive, \<open>loss_count\<close> otherwise; so a close at a pnl of exactly
  zero is counted as a loss and leaves \<open>win_count\<close> as it was.
\<close>

theorem close_position_counters:
  assumes "map_of (positions p) addr = Some held"
  shows "fst (close_position p addr sell_price why now)
       \<and> (let p' = snd (close_position p addr sell_price why now);
              final_pnl = pnl_usd (update_price held sell_price)
          in (final_pnl = 0 \<longrightarrow> loss_count p' = loss_count p + 1 \<and> win_count p' = win_count p)
           \<and> (win_count p' = win_count p + 1 \<longleftrightarrow> final_pnl > 0)
           \<and> (final_pnl > 0 \<longrightarrow> loss_count p' = loss_count p)
           \<and> (final_pnl \<le> 0 \<longrightarrow> loss_count p' = loss_count p + 1 \<and> win_count p' = win_count p)
           \<and> win_count p' + loss_count p' = win_count p + loss_count p + 1)"
  using assms by (simp add: close_position_def Let_def)

theorem close_position_counters_witness:
  "fst (close_position (add_position (Portfolio_init 1000)
          (Position_init ''DUST'' ''0xA'' 2 2 10 0)) ''0xA'' 2 ''flat'' 60)
   \<and> loss_count (snd (close_position (add_position (Portfolio_init 1000)
          (Position_init ''DUST'' ''0xA'' 2 2 10 0)) ''0xA'' 2 ''flat'' 60)) = 1
   \<and> win_count (snd (close_position (add_position (Portfolio_init 1000)
          (Position_init ''DUST'' ''0xA'' 2 2 10 0)) ''0xA'' 2 ''flat'' 60)) = 0"
  using close_position_counters
    [of "add_position (Portfolio_init 1000) (Position_init ''DUST'' ''0xA'' 2 2 10 0)"
        "''0xA''" "Position_init ''DUST'' ''0xA'' 2 2 10 0" 2 "''flat''" 60]
  by (simp add: add_position_def Portfolio_init_def Position_init_def update_price_def Let_def)

section \<open>Properties of the analyzer\<close>

subsection \<open>Volume trend\<close>

text \<open>
  C4, as the code has it.  The ratio is \<open>avg_second_half / (avg_first_half + 1)\<close>, so the class
  depends on the size of the first-half mean and not only on the quotient of the two means.
  For a series of at least two volumes: a second-half mean of twice the first-half mean is
  \<open>increasing\<close> when the first-half mean exceeds \<open>13/7\<close>; a second-half mean of half the
  first-half mean is \<open>decreasing\<close> when the first-half mean is not negative; equal means are
  \<open>stable\<close> when the mean is at least \<open>7/3\<close>.
\<close>

theorem volume_trend_classification:
  assumes "2 \<le> length volumes"
  shows "(np_mean (drop (length volumes div 2) volumes)
            = 2 * np_mean (take (length volumes div 2) volumes)
          \<and> 13 / 7 < np_mean (take (length volumes div 2) volumes)
          \<longrightarrow> calculate_volume_trend volumes = ''increasing'')
       \<and> (np_mean (drop (length volumes div 2) volumes)
            = 0.5 * np_mean (take (length volumes div 2) volumes)
          \<and> 0 \<le> np_mean (take (length volumes div 2) volumes)
          \<longrightarrow> calculate_volume_trend volumes = ''decreasing'')
       \<and> (np_mean (drop (length volumes div 2) volumes)
            = np_mean (take (length volumes div 2) volumes)
          \<and> 7 / 3 \<le> np_mean (take (length volumes div 2) volumes)
          \<longrightarrow> calculate_volume_trend volumes = ''stable'')"
proof -
  define a where "a = np_mean (take (length volumes div 2) volumes)"
  define b where "b = np_mean (drop (length volumes div 2) volumes)"
  have trend: "calculate_volume_trend volumes =
      (if np_greater (np_divide b (a + 1)) 1.3 then ''increasing''
       else if np_less (np_divide b (a + 1)) 0.7 then ''decreasing'' else ''stable'')"
    using assms by (simp add: calculate_volume_trend_def Let_def a_def b_def)
  have inc: "calculate_volume_trend volumes = ''increasing''" if "b = 2 * a" "13 / 7 < a"
  proof -
    from that have "0 < a + 1" by simp
    moreover from that have "13 / 10 * (a + 1) < b" by simp
    ultimately have "13 / 10 < b / (a + 1)" by (simp add: pos_less_divide_eq)
    with \<open>0 < a + 1\<close> show ?thesis by (simp add: trend np_divide_def)
  qed
  have dec: "calculate_volume_trend volumes = ''decreasing''" if "b = 0.5 * a" "0 \<le> a"
  proof -
    from that have pos: "0 < a + 1" by simp
    from that have "b < 7 / 10 * (a + 1)" by simp
    with pos have lt: "b / (a + 1) < 7 / 10" by (simp add: pos_divide_less_eq)
    then have "\<not> 13 / 10 < b / (a + 1)" by simp
    with pos lt show ?thesis by (simp add: trend np_divide_def)
  qed
  have stab: "calculate_volume_trend volumes = ''stable''" if "b = a" "7 / 3 \<le> a"
  proof -
    from that have pos: "0 < a + 1" by simp
    from that have "b < 13 / 10 * (a + 1)" by simp
    with pos have "b / (a + 1) < 13 / 10" by (simp add: pos_divide_less_eq)
    then have n1: "\<not> 13 / 10 < b / (a + 1)" by simp
    from that have "7 / 10 * (a + 1) \<le> b" by simp
    with pos have "7 / 10 \<le> b / (a + 1)" by (simp add: pos_le_divide_eq)
    then have n2: "\<not> b / (a + 1) < 7 / 10" by simp
    from pos n1 n2 show ?thesis by (simp add: trend np_divide_def)
  qed
  from inc dec stab show ?thesis unfolding a_def b_def by blast
qed

theorem volume_trend_classification_witness:
  "2 \<le> length [10, 20 :: real] \<and> calculate_volume_trend [10, 20] = ''increasing''
   \<and> calculate_volume_trend [10, 5] = ''decreasing''
   \<and> calculate_volume_trend [10, 10] = ''stable''"
  using volume_trend_classification [of "[10, 20]"]
        volume_trend_classification [of "[10, 5]"]
        volume_trend_classification [of "[10, 10]"]
  by (simp add: np_mean_def)

text \<open>
  With small volumes the quotient of the means does not decide the class: \<open>[1, 2]\<close> doubles
  and is \<open>stable\<close>, \<open>[1, 1]\<close> has equal halves and is \<open>decreasing\<close>.
\<close>

theorem volume_trend_counterexample:
  "np_mean (drop (length [1, 2 :: real] div 2) [1, 2])
     = 2 * np_mean (take (length [1, 2 :: real] div 2) [1, 2])
   \<and> calculate_volume_trend [1, 2] \<noteq> ''increasing''
   \<and> np_mean (drop (length [1, 1 :: real] div 2) [1, 1])
     = np_mean (take (length [1, 1 :: real] div 2) [1, 1])
   \<and> calculate_volume_trend [1, 1] \<noteq> ''stable''"
  by (simp add: calculate_volume_trend_def np_mean_def np_divide_def Let_def)

subsection \<open>Risk/reward ratio\<close>

text \<open>
  C7.  \<open>calculate_risk_reward\<close> returns a value between 0 and 3; it returns 1 when no
  timeframe has a positive support level or none has a positive resistance level; and, when
  both kinds of level are present, it returns 3 if the price equals the average support.
\<close>

theorem risk_reward_bounds:
  "0 \<le> calculate_risk_reward tok tfs \<and> calculate_risk_reward tok tfs \<le> 3
   \<and> ((\<forall>tf \<in> set (map snd tfs). \<not> support_level tf > 0)
        \<or> (\<forall>tf \<in> set (map snd tfs). \<not> resistance_level tf > 0)
       \<longrightarrow> calculate_risk_reward tok tfs = 1)
   \<and> ((\<exists>tf \<in> set (map snd tfs). support_level tf > 0)
        \<and> (\<exists>tf \<in> set (map snd tfs). resistance_level tf > 0)
        \<and> price_usd tok = np_mean (positive_supports tfs)
       \<longrightarrow> calculate_risk_reward tok tfs = 3)"
proof -
  have s: "positive_supports tfs = [] \<longleftrightarrow> (\<forall>tf \<in> set (map snd tfs). \<not> support_level tf > 0)"
    by (simp add: positive_supports_def filter_empty_conv)
  have r: "positive_resistances tfs = []
             \<longleftrightarrow> (\<forall>tf \<in> set (map snd tfs). \<not> resistance_level tf > 0)"
    by (simp add: positive_resistances_def filter_empty_conv)
  have lo: "0 \<le> calculate_risk_reward tok tfs"
    by (simp add: calculate_risk_reward_def Let_def)
  have hi: "calculate_risk_reward tok tfs \<le> 3"
    by (simp add: calculate_risk_reward_def Let_def)
  have dflt: "calculate_risk_reward tok tfs = 1"
    if "positive_supports tfs = [] \<or> positive_resistances tfs = []"
    using that by (auto simp: calculate_risk_reward_def Let_def)
  have best: "calculate_risk_reward tok tfs = 3"
    if "positive_supports tfs \<noteq> []" "positive_resistances tfs \<noteq> []"
       "price_usd tok = np_mean (positive_supports tfs)"
    using that by (simp add: calculate_risk_reward_def Let_def)
  from lo hi dflt best s r show ?thesis by blast
qed

theorem risk_reward_bounds_witness:
  "calculate_risk_reward
     (TokenData.make ''0xA'' ''DUST'' ''Dust'' 1 12 500000 150000 2000000 2000000 ''bsc'' ''0xP'' [])
     [(''1h'', TimeframeData.make ''1h'' 5 1000 ''stable'' ''neutral'' 1 2 3)] = 3
   \<and> calculate_risk_reward
     (TokenData.make ''0xA'' ''DUST'' ''Dust'' 1 12 500000 150000 2000000 2000000 ''bsc'' ''0xP'' [])
     [(''1h'', TimeframeData.make ''1h'' 5 1000 ''stable'' ''neutral'' 0 2 3)] = 1"
  using risk_reward_bounds
    [of "TokenData.make ''0xA'' ''DUST'' ''Dust'' 1 12 500000 150000 2000000 2000000 ''bsc'' ''0xP'' []"
        "[(''1h'', TimeframeData.make ''1h'' 5 1000 ''stable'' ''neutral'' 1 2 3)]"]
    risk_reward_bounds
    [of "TokenData.make ''0xA'' ''DUST'' ''Dust'' 1 12 500000 150000 2000000 2000000 ''bsc'' ''0xP'' []"
        "[(''1h'', TimeframeData.make ''1h'' 5 1000 ''stable'' ''neutral'' 0 2 3)]"]
  by (simp add: TokenData.defs TimeframeData.defs positive_supports_def np_mean_def)

section \<open>Properties of the opportunity score and the DUST filter\<close>

subsection \<open>Opportunity score\<close>

lemma volume_points_bounds: "0 \<le> volume_points r \<and> volume_points r \<le> 30"
  by (simp add: volume_points_def)

lemma momentum_points_bounds: "0 \<le> momentum_points tok \<and> momentum_points tok \<le> 20"
  by (simp add: momentum_points_def)

lemma liquidity_points_bounds: "0 \<le> liquidity_points tok \<and> liquidity_points tok \<le> 20"
  by (simp add: liquidity_points_def)

lemma market_cap_points_bounds: "0 \<le> market_cap_points tok \<and> market_cap_points tok \<le> 30"
  by (simp add: market_cap_points_def)

lemma calculate_opportunity_returns:
  assumes "market_cap tok \<noteq> - 1"
  shows "calculate_opportunity tok =
           Inr (min (volume_points (volume_24h tok / (market_cap tok + 1))
                     + momentum_points tok + liquidity_points tok + market_cap_points tok) 100)"
proof -
  from assms have "market_cap tok + 1 \<noteq> 0" by (simp add: add_eq_0_iff)
  then show ?thesis by (simp add: calculate_opportunity_def py_div_def Let_def)
qed

text \<open>
  C9, as the code has it.  The volume ratio is \<open>volume_24h / (market_cap + 1)\<close>, a division of
  Python floats, which raises when \<open>market_cap\<close> is \<open>-1\<close>.  For every other token
  \<open>_calculate_opportunity\<close> returns a score between 0 and 100: the sum, capped at 100, of four
  parts that lie in \<open>[0, 30]\<close> (volume), \<open>[0, 20]\<close> (momentum), \<open>[0, 20]\<close> (liquidity) and
  \<open>[0, 30]\<close> (market cap).
\<close>

theorem opportunity_score_bounds:
  assumes "market_cap tok \<noteq> - 1"
  shows "\<exists>score. calculate_opportunity tok = Inr score \<and> 0 \<le> score \<and> score \<le> 100
           \<and> score = min (volume_points (volume_24h tok / (market_cap tok + 1))
                           + momentum_points tok + liquidity_points tok
                           + market_cap_points tok) 100
           \<and> 0 \<le> volume_points (volume_24h tok / (market_cap tok + 1))
           \<and> volume_points (volume_24h tok / (market_cap tok + 1)) \<le> 30
           \<and> 0 \<le> momentum_points tok \<and> momentum_points tok \<le> 20
           \<and> 0 \<le> liquidity_points tok \<and> liquidity_points tok \<le> 20
           \<and> 0 \<le> market_cap_points tok \<and> market_cap_points tok \<le> 30"
  using calculate_opportunity_returns [OF assms]
    volume_points_bounds [of "volume_24h tok / (market_cap tok + 1)"]
    momentum_points_bounds [of tok] liquidity_points_bounds [of tok]
    market_cap_points_bounds [of tok]
  by simp

theorem opportunity_score_bounds_witness:
  "market_cap (TokenData.make ''0xA'' ''DUST'' ''Dust'' 1 25 5000000 250000 2000000 2000000
                 ''bsc'' ''0xP'' []) \<noteq> - 1
   \<and> calculate_opportunity (TokenData.make ''0xA'' ''DUST'' ''Dust'' 1 25 5000000 250000 2000000
                 2000000 ''bsc'' ''0xP'' []) = Inr 100"
proof -
  let ?t = "TokenData.make ''0xA'' ''DUST'' ''Dust'' 1 25 5000000 250000 2000000 2000000
              ''bsc'' ''0xP'' []"
  have ne: "market_cap ?t \<noteq> - 1" by (simp add: TokenData.defs)
  from opportunity_score_bounds [OF ne] ne show ?thesis
    by (simp add: TokenData.defs volume_points_def momentum_points_def liquidity_points_def
        market_cap_points_def)
qed

text \<open>At a market cap of \<open>-1\<close> no score is returned: the division raises.\<close>

theorem opportunity_score_counterexample:
  "calculate_opportunity (TokenData.make ''0xA'' ''DUST'' ''Dust'' 1 25 5000000 250000 (- 1)
      2000000 ''bsc'' ''0xP'' []) = Inl ZeroDivisionError"
  by (simp add: calculate_opportunity_def py_div_def TokenData.defs)

subsection \<open>The DUST filter\<close>

lemma analyze_token_returns:
  assumes "market_cap tok \<noteq> - 1"
  shows "\<exists>an. analyze_token age tok = Inr an
              \<and> calculate_opportunity tok = Inr (opportunity_score an)"
proof -
  from assms have nz: "market_cap tok + 1 \<noteq> 0" by (simp add: add_eq_0_iff)
  obtain opp where opp: "calculate_opportunity tok = Inr opp"
    using calculate_opportunity_returns [OF assms] by blast
  from nz opp show ?thesis
    by (simp add: analyze_token_def analyze_volume_def analyze_liquidity_def py_div_def)
qed

lemma dust_filtered_returns:
  "\<exists>filtered. dust_filtered age_of candidates = Inr filtered
     \<and> (\<forall>m \<in> set filtered.
           SimilarityMetrics.token m \<in> set candidates
         \<and> 1000000 \<le> market_cap (SimilarityMetrics.token m)
         \<and> market_cap (SimilarityMetrics.token m) \<le> 50000000
         \<and> calculate_opportunity (SimilarityMetrics.token m)
             = Inr (opportunity_score (SimilarityMetrics.analysis m))
         \<and> similarity_score m
             = real_of_int (opportunity_score (SimilarityMetrics.analysis m)) / 100)"
proof (induction candidates)
  case Nil
  show ?case by simp
next
  case (Cons tok rest)
  then obtain filtered where rest: "dust_filtered age_of rest = Inr filtered"
    and props: "\<forall>m \<in> set filtered.
           SimilarityMetrics.token m \<in> set rest
         \<and> 1000000 \<le> market_cap (SimilarityMetrics.token m)
         \<and> market_cap (SimilarityMetrics.token m) \<le> 50000000
         \<and> calculate_opportunity (SimilarityMetrics.token m)
             = Inr (opportunity_score (SimilarityMetrics.analysis m))
         \<and> similarity_score m
             = real_of_int (opportunity_score (SimilarityMetrics.analysis m)) / 100"
    by blast
  show ?case
  proof (cases "1000000 \<le> market_cap tok \<and> market_cap tok \<le> 50000000")
    case False
    with rest props show ?thesis by (auto simp: DUST_profile_def)
  next
    case True
    then have ne: "market_cap tok \<noteq> - 1" by simp
    then have nz: "market_cap tok + 1 \<noteq> 0" by (simp add: add_eq_0_iff)
    obtain an where an: "analyze_token (age_of tok) tok = Inr an"
      and opp: "calculate_opportunity tok = Inr (opportunity_score an)"
      using analyze_token_returns [OF ne] by blast
    from True nz an opp rest props show ?thesis
      by (auto simp: DUST_profile_def py_div_def)
  qed
qed

text \<open>
  C8.  \<open>find_dust_like_tokens\<close> returns a list for every list of candidates.  Every entry of
  it is one of the candidates, has a market cap between 1,000,000 and 50,000,000 (so a
  candidate at 60,000,000 is never returned), and carries its opportunity score divided by 100
  as \<open>similarity_score\<close>; and the list is in descending order of \<open>similarity_score\<close>.
\<close>

theorem dust_gate_and_order:
  "\<exists>found. find_dust_like_tokens age_of candidates = Inr found
     \<and> (\<forall>m \<in> set found.
           SimilarityMetrics.token m \<in> set candidates
         \<and> 1000000 \<le> market_cap (SimilarityMetrics.token m)
         \<and> market_cap (SimilarityMetrics.token m) \<le> 50000000
         \<and> market_cap (SimilarityMetrics.token m) \<noteq> 60000000
         \<and> calculate_opportunity (SimilarityMetrics.token m)
             = Inr (opportunity_score (SimilarityMetrics.analysis m))
         \<and> similarity_score m
             = real_of_int (opportunity_score (SimilarityMetrics.analysis m)) / 100)
     \<and> sorted_wrt (\<lambda>x y. similarity_score x \<ge> similarity_score y) found"
proof -
  obtain filtered where f: "dust_filtered age_of candidates = Inr filtered"
    and props: "\<forall>m \<in> set filtered.
           SimilarityMetrics.token m \<in> set candidates
         \<and> 1000000 \<le> market_cap (SimilarityMetrics.token m)
         \<and> market_cap (SimilarityMetrics.token m) \<le> 50000000
         \<and> calculate_opportunity (SimilarityMetrics.token m)
             = Inr (opportunity_score (SimilarityMetrics.analysis m))
         \<and> similarity_score m
             = real_of_int (opportunity_score (SimilarityMetrics.analysis m)) / 100"
    using dust_filtered_returns [of age_of candidates] by blast
  have found: "find_dust_like_tokens age_of candidates = Inr (sort_by_similarity filtered)"
    by (simp add: find_dust_like_tokens_def f)
  have same: "set (sort_by_similarity filtered) = set filtered"
    by (simp add: sort_by_similarity_def)
  have "sorted (map (\<lambda>x. - similarity_score x) (sort_by_similarity filtered))"
    by (simp add: sort_by_similarity_def)
  then have ord: "sorted_wrt (\<lambda>x y. similarity_score x \<ge> similarity_score y)
                    (sort_by_similarity filtered)"
    by (simp add: sorted_map)
  from props have gate: "\<forall>m \<in> set filtered. market_cap (SimilarityMetrics.token m) \<noteq> 60000000"
    by auto
  from found same ord props gate show ?thesis by simp
qed

theorem dust_gate_and_order_witness:
  "(case find_dust_like_tokens (\<lambda>t. Some 48)
      [TokenData.make ''0xA'' ''AAA'' ''A'' 1 25 90000000 250000 60000000 0 ''bsc'' ''0xP'' [],
       TokenData.make ''0xC'' ''CCC'' ''C'' 1 0 3000000 150000 5000000 0 ''bsc'' ''0xQ'' [],
       TokenData.make ''0xB'' ''BBB'' ''B'' 1 25 5000000 250000 2000000 0 ''bsc'' ''0xR'' []]
    of Inl e \<Rightarrow> False
     | Inr found \<Rightarrow>
         map (\<lambda>m. (symbol (SimilarityMetrics.token m), similarity_score m)) found
           = [(''BBB'', 1), (''CCC'', 0.55)])"
  using dust_gate_and_order [of "\<lambda>t. Some 48"
      "[TokenData.make ''0xA'' ''AAA'' ''A'' 1 25 90000000 250000 60000000 0 ''bsc'' ''0xP'' [],
        TokenData.make ''0xC'' ''CCC'' ''C'' 1 0 3000000 150000 5000000 0 ''bsc'' ''0xQ'' [],
        TokenData.make ''0xB'' ''BBB'' ''B'' 1 25 5000000 250000 2000000 0 ''bsc'' ''0xR'' []]"]
  by (simp add: find_dust_like_tokens_def sort_by_similarity_def DUST_profile_def py_div_def
      analyze_token_def analyze_volume_def analyze_liquidity_def calculate_opportunity_def
      volume_points_def momentum_points_def liquidity_points_def market_cap_points_def
      TokenData.defs Let_def)

section \<open>Properties of the trading agent\<close>

subsection \<open>Position sizing\<close>

text \<open>
  On confidences between 50 and 100, with a price above 0, \<open>calculate_position_size\<close> is the
  formula of the specification (the clamp changes nothing there), and the invested fraction
  runs linearly from 10% at confidence 50 to 20% at confidence 100.
\<close>

lemma position_size_formula:
  assumes "50 \<le> conf" and "conf \<le> 100" and "0 < token_price"
  shows "calculate_position_size agent token_price conf
           = spec_position_size (get_available_capital agent) token_price conf
       \<and> spec_invested_fraction conf = 0.10 + 0.10 * ((conf - 50) / 50)
       \<and> 0.10 \<le> spec_invested_fraction conf \<and> spec_invested_fraction conf \<le> 0.20
       \<and> spec_invested_fraction 50 = 0.10 \<and> spec_invested_fraction 100 = 0.20
       \<and> calculate_position_size agent token_price conf * token_price
           = get_available_capital agent * spec_invested_fraction conf"
proof -
  from assms have c: "clamp ((conf - 50) / 50) 0 1 = (conf - 50) / 50"
    by (simp add: clamp_def)
  have f: "spec_invested_fraction conf = 0.10 + 0.10 * ((conf - 50) / 50)"
    by (simp add: spec_invested_fraction_def c)
  have size: "calculate_position_size agent token_price conf
                = get_available_capital agent * spec_invested_fraction conf / token_price"
    using assms by (simp add: calculate_position_size_def Let_def f)
  have ends: "spec_invested_fraction 50 = 0.10 \<and> spec_invested_fraction 100 = 0.20"
    by (simp add: spec_invested_fraction_def clamp_def)
  have bounds: "0.10 \<le> spec_invested_fraction conf \<and> spec_invested_fraction conf \<le> 0.20"
    using assms unfolding f by (auto simp: field_simps)
  from assms have "calculate_position_size agent token_price conf * token_price
                     = get_available_capital agent * spec_invested_fraction conf"
    by (simp add: size)
  with size f ends bounds show ?thesis by (simp add: spec_position_size_def)
qed

lemma position_size_formula_example:
  "(50 :: real) \<le> 75 \<and> (75 :: real) \<le> 100 \<and> (0 :: real) < 2
   \<and> get_available_capital (AITradingAgent_init 1000) = 500
   \<and> calculate_position_size (AITradingAgent_init 1000) 2 75 = 37.5"
proof -
  have av: "get_available_capital (AITradingAgent_init 1000) = 500"
    by (simp add: get_available_capital_def the_portfolio_def AITradingAgent_init_def
        PortfolioManager_init_def Portfolio_init_def get_total_value_def)
  from position_size_formula [of 75 2 "AITradingAgent_init 1000"] av show ?thesis
    by (simp add: spec_position_size_def spec_invested_fraction_def clamp_def)
qed

text \<open>
  C5.  The formula of the specification, like the comments of \<open>calculate_position_size\<close>
  (\<open>0 to 1\<close>, \<open>10% to 20%\<close>), keeps the invested fraction at 10% or more.  The code does not
  clamp \<open>(confidence - 50) / 50\<close>.  On a fresh agent (available capital 500) and a price of 1:
  at confidence 0 the code sizes the position at 0 units, 0% of the capital, where the
  formula gives 50 units; at confidence 40 it sizes it at 40 units, 8%, where the formula
  gives 50.
\<close>

theorem position_size_unclamped:
  "get_available_capital (AITradingAgent_init 1000) = 500
   \<and> calculate_position_size (AITradingAgent_init 1000) 1 0 = 0
   \<and> spec_position_size (get_available_capital (AITradingAgent_init 1000)) 1 0 = 50
   \<and> calculate_position_size (AITradingAgent_init 1000) 1 40 = 40
   \<and> spec_position_size (get_available_capital (AITradingAgent_init 1000)) 1 40 = 50"
  by (simp add: calculate_position_size_def spec_position_size_def spec_invested_fraction_def
      clamp_def get_available_capital_def the_portfolio_def AITradingAgent_init_def
      PortfolioManager_init_def Portfolio_init_def get_total_value_def Let_def)

subsection \<open>The analyzer call inside the exit evaluation\<close>

lemma length_mock_walk [simp]: "length (mock_walk p d i n) = n"
  by (induction n arbitrary: p i) (simp_all add: Let_def)

lemma hd_mock_walk: "0 < n \<Longrightarrow> hd (mock_walk p d i n) = p * (1 + d i)"
  by (cases n) (simp_all add: Let_def)

lemma hd_list_update: "k \<noteq> 0 \<Longrightarrow> hd (xs[k := v]) = hd xs"
  by (cases xs; cases k) simp_all

lemma mock_series_hd:
  "k \<noteq> 0 \<Longrightarrow> 0 < n \<Longrightarrow> hd ((mock_walk p d 0 n)[k := v]) = p * (1 + d 0)"
  by (simp add: hd_list_update hd_mock_walk)

lemma mock_series_nonempty: "0 < n \<Longrightarrow> (mock_walk p d 0 n)[k := v] \<noteq> []"
proof -
  assume "0 < n"
  moreover have "length ((mock_walk p d 0 n)[k := v]) = n" by simp
  ultimately show ?thesis by fastforce
qed

lemma generate_mock_price_history_raises:
  "1 + price_change_24h tok / 100 = 0 \<Longrightarrow>
   generate_mock_price_history tok draws = Inl ZeroDivisionError"
  by (simp add: generate_mock_price_history_def py_div_def)

lemma generate_mock_price_history_1h:
  assumes "1 + price_change_24h tok / 100 \<noteq> 0"
  shows "\<exists>history. generate_mock_price_history tok draws = Inr history
           \<and> map_of history ''1h''
               = Some ((mock_walk (price_usd tok / (1 + price_change_24h tok / 100))
                          (draws ''1h'') 0 12)[12 - 1 := price_usd tok])"
  using assms by (simp add: generate_mock_price_history_def py_div_def Let_def)

text \<open>
  A token priced 0 (\<open>TokenData.from_dict\<close> gives that price when \<open>priceUsd\<close> is missing) makes
  the analyzer raise, whatever the random draws: either in the mock history, or at the price
  change of \<open>1h\<close>, whose series starts at 0.
\<close>

lemma analyzer_raises_at_price_zero:
  assumes "price_usd tok = 0"
  shows "analyzer_analyze_token draws remainder tok = Inl ZeroDivisionError"
proof (cases "1 + price_change_24h tok / 100 = 0")
  case True
  then show ?thesis
    by (simp add: analyzer_analyze_token_def generate_mock_price_history_raises)
next
  case False
  from generate_mock_price_history_1h [OF False, of draws]
  obtain history where h: "generate_mock_price_history tok draws = Inr history"
    and s: "map_of history ''1h''
              = Some ((mock_walk (price_usd tok / (1 + price_change_24h tok / 100))
                         (draws ''1h'') 0 12)[12 - 1 := price_usd tok])"
    by blast
  have "hd ((mock_walk (price_usd tok / (1 + price_change_24h tok / 100))
                (draws ''1h'') 0 12)[12 - 1 := price_usd tok]) = 0"
    using assms by (simp add: mock_series_hd)
  moreover have "(mock_walk (price_usd tok / (1 + price_change_24h tok / 100))
                (draws ''1h'') 0 12)[12 - 1 := price_usd tok] \<noteq> []"
    by (rule mock_series_nonempty) simp
  ultimately show ?thesis
    by (simp add: analyzer_analyze_token_def h s timeframe_price_change_def py_div_def)
qed

lemma analyzer_returns_remainder:
  assumes "1 + price_change_24h tok / 100 \<noteq> 0" and "price_usd tok \<noteq> 0"
    and "draws ''1h'' 0 \<noteq> - 1"
  shows "analyzer_analyze_token draws remainder tok = remainder"
proof -
  from generate_mock_price_history_1h [OF assms(1), of draws]
  obtain history where h: "generate_mock_price_history tok draws = Inr history"
    and s: "map_of history ''1h''
              = Some ((mock_walk (price_usd tok / (1 + price_change_24h tok / 100))
                         (draws ''1h'') 0 12)[12 - 1 := price_usd tok])"
    by blast
  from assms(3) have "1 + draws ''1h'' 0 \<noteq> 0" by (simp add: add_eq_0_iff)
  with assms have "hd ((mock_walk (price_usd tok / (1 + price_change_24h tok / 100))
                (draws ''1h'') 0 12)[12 - 1 := price_usd tok]) \<noteq> 0"
    by (simp add: mock_series_hd)
  moreover have "(mock_walk (price_usd tok / (1 + price_change_24h tok / 100))
                (draws ''1h'') 0 12)[12 - 1 := price_usd tok] \<noteq> []"
    by (rule mock_series_nonempty) simp
  ultimately show ?thesis
    by (simp add: analyzer_analyze_token_def h s timeframe_price_change_def py_div_def)
qed

subsection \<open>Exit evaluation: the stop loss\<close>

lemma with_portfolio_fields [simp]:
  "state (with_portfolio agent p) = state agent"
  "stop_loss_pct (with_portfolio agent p) = stop_loss_pct agent"
  "take_profit_targets (with_portfolio agent p) = take_profit_targets agent"
  by (simp_all add: with_portfolio_def)

text \<open>
  When the analyzer returns an analysis, the stop loss is the first exit condition: with the
  configured 15 percent and a \<open>pnl_percent\<close> of at most \<open>-15\<close> after the price update, the
  decision is a sell of the whole quantity with confidence 90 and a reason that starts with
  \<open>Stop loss triggered\<close>, for every analysis, strategy preference, take-profit table and
  clock reading.
\<close>

lemma stop_loss_first:
  assumes "map_of (positions (the_portfolio agent)) (address tok) = Some held"
    and "stop_loss_pct agent = 15"
    and "pnl_percent (update_price held (price_usd tok)) \<le> - 15"
    and "analyzer_analyze_token draws remainder tok = Inr an"
  shows "\<exists>d. fst (analyze_existing_position fmt agent tok draws remainder now) = Inr (Some d)
           \<and> TradingDecision.action d = ''sell''
           \<and> confidence d = 90
           \<and> TradingDecision.reason d
               = ''Stop loss triggered (''
                   @ fmt (pnl_percent (update_price held (price_usd tok))) @ ''%)''
           \<and> TradingDecision.token d = tok
           \<and> suggested_amount d = quantity held
           \<and> strategy d = current_strategy_preference (state agent)
           \<and> TradingDecision.analysis d = an"
  using assms by (simp add: analyze_existing_position_def exit_conditions_def Let_def)

lemma stop_loss_first_example:
  "pnl_percent (update_price (Position_init ''DUST'' ''0xA'' 1 1 100 0) 0.84) = - 16
   \<and> (\<exists>d. fst (analyze_existing_position (\<lambda>x. ''-16.0'')
              (with_portfolio (AITradingAgent_init 1000)
                 (add_position (Portfolio_init 1000) (Position_init ''DUST'' ''0xA'' 1 1 100 0)))
              (TokenData.make ''0xA'' ''DUST'' ''Dust'' 0.84 (- 16) 500000 150000 2000000 2000000
                 ''bsc'' ''0xP'' [])
              (\<lambda>tf i. 0)
              (Inr (MultiTimeframeAnalysis.make
                 (TokenData.make ''0xA'' ''DUST'' ''Dust'' 0.84 (- 16) 500000 150000 2000000
                    2000000 ''bsc'' ''0xP'' [])
                 [] ''strong_bearish'' 10 ''avoid'' 1 50 7200))
              7200) = Inr (Some d)
          \<and> TradingDecision.action d = ''sell'' \<and> confidence d = 90
          \<and> TradingDecision.reason d = ''Stop loss triggered (-16.0%)'')"
proof -
  let ?held = "Position_init ''DUST'' ''0xA'' 1 1 100 0"
  let ?agent = "with_portfolio (AITradingAgent_init 1000)
                  (add_position (Portfolio_init 1000) ?held)"
  let ?tok = "TokenData.make ''0xA'' ''DUST'' ''Dust'' 0.84 (- 16) 500000 150000 2000000 2000000
                ''bsc'' ''0xP'' []"
  let ?an = "MultiTimeframeAnalysis.make ?tok [] ''strong_bearish'' 10 ''avoid'' 1 50 7200"
  have pnl: "pnl_percent (update_price ?held 0.84) = - 16"
    by (simp add: update_price_def Position_init_def Let_def)
  have held: "map_of (positions (the_portfolio ?agent)) (address ?tok) = Some ?held"
    by (simp add: the_portfolio_def with_portfolio_def add_position_def Portfolio_init_def
        Position_init_def TokenData.defs)
  have sl: "stop_loss_pct ?agent = 15"
    by (simp add: AITradingAgent_init_def)
  have pnl': "pnl_percent (update_price ?held (price_usd ?tok)) = - 16"
    by (simp add: update_price_def Position_init_def TokenData.defs Let_def)
  have le: "pnl_percent (update_price ?held (price_usd ?tok)) \<le> - 15"
    unfolding pnl' by simp
  have ret: "analyzer_analyze_token (\<lambda>tf i. 0) (Inr ?an) ?tok = Inr ?an"
    by (rule analyzer_returns_remainder) (simp_all add: TokenData.defs)
  from stop_loss_first [OF held sl le ret, of "\<lambda>x. ''-16.0''" 7200] pnl show ?thesis
    unfolding pnl' by auto
qed

text \<open>
  C6.  The analyzer is awaited between the price update and the exit conditions, and it
  raises on a token priced 0.  With \<open>Position{entry=1.0, qty=100}\<close> open and the token's price
  at 0, \<open>pnl_percent\<close> after the update is \<open>-100\<close>, below the stop loss of \<open>-15\<close>; yet
  \<open>_analyze_existing_position\<close> ends in \<open>ZeroDivisionError\<close>, for every random draw, and no sell
  decision is emitted.
\<close>

theorem stop_loss_blocked_by_analyzer:
  "pnl_percent (update_price (Position_init ''DUST'' ''0xA'' 1 1 100 0) 0) = - 100
   \<and> stop_loss_pct (with_portfolio (AITradingAgent_init 1000)
         (add_position (Portfolio_init 1000) (Position_init ''DUST'' ''0xA'' 1 1 100 0))) = 15
   \<and> fst (analyze_existing_position fmt
         (with_portfolio (AITradingAgent_init 1000)
            (add_position (Portfolio_init 1000) (Position_init ''DUST'' ''0xA'' 1 1 100 0)))
         (TokenData.make ''0xA'' ''DUST'' ''Dust'' 0 0 500000 150000 2000000 2000000
            ''bsc'' ''0xP'' [])
         draws remainder now) = Inl ZeroDivisionError"
proof -
  let ?held = "Position_init ''DUST'' ''0xA'' 1 1 100 0"
  let ?agent = "with_portfolio (AITradingAgent_init 1000)
                  (add_position (Portfolio_init 1000) ?held)"
  let ?tok = "TokenData.make ''0xA'' ''DUST'' ''Dust'' 0 0 500000 150000 2000000 2000000
                ''bsc'' ''0xP'' []"
  have pnl: "pnl_percent (update_price ?held 0) = - 100"
    by (simp add: update_price_def Position_init_def Let_def)
  have sl: "stop_loss_pct ?agent = 15"
    by (simp add: AITradingAgent_init_def)
  have held: "map_of (positions (the_portfolio ?agent)) (address ?tok) = Some ?held"
    by (simp add: the_portfolio_def with_portfolio_def add_position_def Portfolio_init_def
        Position_init_def TokenData.defs)
  have "price_usd ?tok = 0" by (simp add: TokenData.defs)
  then have raises: "analyzer_analyze_token draws remainder ?tok = Inl ZeroDivisionError"
    by (rule analyzer_raises_at_price_zero)
  have "fst (analyze_existing_position fmt ?agent ?tok draws remainder now)
          = Inl ZeroDivisionError"
    by (simp add: analyze_existing_position_def held raises Let_def)
  with pnl sl show ?thesis by simp
qed

end
